theory Spec2Isabelle
  imports Main "HOL-Library.Char_ord" "HOL-Library.List_Lexorder"
begin

section \<open>The trade-repost bot (src/bot.py)\<close>

text \<open>
  A shallow embedding of \<^verbatim>\<open>bot.py\<close>: the time gate \<^verbatim>\<open>is_rth\<close>, the dedupe store
  (\<^verbatim>\<open>load_processed\<close>, \<^verbatim>\<open>save_processed\<close>), the fetcher, the media filter
  \<^verbatim>\<open>has_images\<close>, the two wrappers of the generative service, the publisher, and the
  orchestrator \<^verbatim>\<open>run\<close>.

  Conventions.
  \<^item> A JSON object is a record. A key the code reads by subscript (\<^verbatim>\<open>t["id"]\<close>,
    \<^verbatim>\<open>t["text"]\<close>, \<^verbatim>\<open>m["media_key"]\<close>) is a plain field; a key the code tests with
    \<^verbatim>\<open>in\<close> or reads with \<^verbatim>\<open>.get\<close> is an \<open>option\<close> field, \<open>None\<close> when the key
    is absent.
  \<^item> A Python \<^verbatim>\<open>str\<close> is a \<open>string\<close>; a \<open>char\<close> stands for the code point of the
    same number (0 to 255).
  \<^item> The external services are fields of a record \<open>world\<close>. The answer of the
    generative service and of the publish endpoint may depend on every call the run
    has made before, so they take the list of those calls.
  \<^item> The HTTP services answer with a status code; a transport error (an exception of
    the \<^verbatim>\<open>requests\<close> library) is outside the model.
\<close>

subsection \<open>Time gate\<close>

text \<open>
  \<^verbatim>\<open>datetime.now(eastern)\<close>: the wall clock in US/Eastern. The date is kept as its
  proleptic Gregorian day number (\<^verbatim>\<open>toordinal()\<close>; day 1 is Monday 0001-01-01), from
  which Python computes \<^verbatim>\<open>weekday()\<close> as \<^verbatim>\<open>(toordinal() + 6) % 7\<close>.
\<close>

record datetime =
  ordinal :: nat
  hour :: nat
  minute :: nat
  second :: nat
  microsecond :: nat

definition weekday :: "datetime \<Rightarrow> nat" where
  "weekday d = (ordinal d + 6) mod 7"

text \<open>
  \<^verbatim>\<open>a <= b\<close> on two datetimes of the same zone object compares the fields from the
  date down to the microsecond, lexicographically.
\<close>

definition datetime_le :: "datetime \<Rightarrow> datetime \<Rightarrow> bool" where
  "datetime_le a b =
     (ordinal a < ordinal b \<or> (ordinal a = ordinal b \<and>
       (hour a < hour b \<or> (hour a = hour b \<and>
         (minute a < minute b \<or> (minute a = minute b \<and>
           (second a < second b \<or> (second a = second b \<and>
             microsecond a \<le> microsecond b))))))))"

definition is_rth :: "datetime \<Rightarrow> bool" where
  "is_rth now =
     (if weekday now \<ge> 5 then False
      else
        let open_time = now\<lparr>hour := 9, minute := 30, second := 0, microsecond := 0\<rparr>;
            close_time = now\<lparr>hour := 16, minute := 0, second := 0, microsecond := 0\<rparr>
        in if datetime_le open_time now \<and> datetime_le now close_time then True
           else False)"

text \<open>
  The time of day in microseconds since midnight, and the fields a \<^verbatim>\<open>datetime\<close> can
  hold. These two state the window of the specification; \<open>is_rth\<close> does not use them.
\<close>

definition time_of_day :: "datetime \<Rightarrow> nat" where
  "time_of_day d = ((hour d * 60 + minute d) * 60 + second d) * 1000000 + microsecond d"

definition valid_time :: "datetime \<Rightarrow> bool" where
  "valid_time d = (hour d < 24 \<and> minute d < 60 \<and> second d < 60 \<and> microsecond d < 1000000)"

definition hms :: "nat \<Rightarrow> nat \<Rightarrow> nat \<Rightarrow> nat" where
  "hms h m s = ((h * 60 + m) * 60 + s) * 1000000"

subsection \<open>Dedupe store\<close>

text \<open>
  \<^verbatim>\<open>processed_tweets.json\<close>: \<open>None\<close> when the file does not exist, otherwise the JSON
  array of id strings it holds. A file that exists and is no array of strings makes
  \<^verbatim>\<open>json.load\<close> raise; such a file is outside the model.
\<close>

type_synonym processed_file = "string list option"

definition load_processed :: "processed_file \<Rightarrow> string set" where
  "load_processed f = (case f of None \<Rightarrow> {} | Some ids \<Rightarrow> set ids)"

text \<open>
  \<^verbatim>\<open>json.dump(list(processed), f)\<close>. The order in which \<^verbatim>\<open>list\<close> walks a Python set is
  the hash order, which the program does not control: the enumeration is a parameter
  \<open>to_list\<close>. \<open>enumerates\<close> says what every \<^verbatim>\<open>list(s)\<close> satisfies: each element of the
  set once, and nothing else.
\<close>

definition save_processed :: "(string set \<Rightarrow> string list) \<Rightarrow> string set \<Rightarrow> processed_file" where
  "save_processed to_list processed = Some (to_list processed)"

definition enumerates :: "(string set \<Rightarrow> string list) \<Rightarrow> bool" where
  "enumerates to_list = (\<forall>s. finite s \<longrightarrow> set (to_list s) = s \<and> distinct (to_list s))"

subsection \<open>Posts, media and the timeline response\<close>

record attachments =
  media_keys :: "string list option"

record tweet =
  tweet_id :: string
  tweet_text :: string
  tweet_attachments :: "attachments option"

record media_item =
  media_key :: string
  media_type :: "string option"

record media_includes =
  media :: "media_item list option"

text \<open>
  The body of the timeline response: the keys \<^verbatim>\<open>data\<close> and \<^verbatim>\<open>includes\<close>, both read with
  \<^verbatim>\<open>.get\<close>, and the names of whatever other top-level keys the object has (the service
  sends \<^verbatim>\<open>meta\<close>, for one).
\<close>

record timeline =
  timeline_data :: "tweet list option"
  timeline_includes :: "media_includes option"
  other_keys :: "string list"

record response =
  status_code :: nat
  json :: timeline

definition get_latest_tweets :: "response \<Rightarrow> timeline option" where
  "get_latest_tweets r = (if status_code r \<noteq> 200 then None else Some (json r))"

text \<open>Python's truth value of a dict: false exactly when it has no key.\<close>

definition timeline_truthy :: "timeline \<Rightarrow> bool" where
  "timeline_truthy d = (timeline_data d \<noteq> None \<or> timeline_includes d \<noteq> None \<or> other_keys d \<noteq> [])"

subsection \<open>Media filter\<close>

fun any_photo :: "string list \<Rightarrow> media_item list \<Rightarrow> bool" where
  "any_photo keys [] = False"
| "any_photo keys (m # ms) =
     (if media_key m \<in> set keys \<and> media_type m = Some ''photo'' then True
      else any_photo keys ms)"

definition has_images :: "tweet \<Rightarrow> media_includes \<Rightarrow> bool" where
  "has_images t inc =
     (case tweet_attachments t of
        None \<Rightarrow> False
      | Some a \<Rightarrow>
          (case media_keys a of
             None \<Rightarrow> False
           | Some keys \<Rightarrow>
               (case media inc of
                  None \<Rightarrow> False
                | Some ms \<Rightarrow> any_photo keys ms)))"

subsection \<open>Strings\<close>

text \<open>
  \<^verbatim>\<open>str.strip()\<close> removes the leading and trailing characters for which
  \<^verbatim>\<open>str.isspace\<close> holds; below 256 these are the code points 9 to 13, 28 to 32, 133
  and 160. \<^verbatim>\<open>str.lower()\<close> maps A to Z, and the upper-case letters 192 to 222 but the
  multiplication sign 215, to the code point 32 above.
\<close>

definition py_isspace :: "char \<Rightarrow> bool" where
  "py_isspace c =
     (let n = (of_char c :: nat)
      in (9 \<le> n \<and> n \<le> 13) \<or> (28 \<le> n \<and> n \<le> 32) \<or> n = 133 \<or> n = 160)"

definition strip :: "string \<Rightarrow> string" where
  "strip s = rev (dropWhile py_isspace (rev (dropWhile py_isspace s)))"

definition lower_char :: "char \<Rightarrow> char" where
  "lower_char c =
     (let n = (of_char c :: nat)
      in if (65 \<le> n \<and> n \<le> 90) \<or> (192 \<le> n \<and> n \<le> 222 \<and> n \<noteq> 215)
         then char_of (n + 32) else c)"

definition lower :: "string \<Rightarrow> string" where
  "lower s = map lower_char s"

fun startswith :: "string \<Rightarrow> string \<Rightarrow> bool" where
  "startswith s [] = True"
| "startswith [] (p # ps) = False"
| "startswith (c # s) (p # ps) = (c = p \<and> startswith s ps)"

subsection \<open>The calls of a run\<close>

text \<open>
  What \<^verbatim>\<open>run\<close> calls, in order, each with its argument and (where the run reads it) the
  value it returned.
\<close>

datatype call =
    IsRth bool
  | LoadProcessed
  | GetLatestTweets
  | HasImages tweet bool
  | ClassifyTrade string string
  | RewriteTweet string "string option"
  | PostTweet string bool
  | SaveProcessed "string set"

record world =
  now :: datetime
  stored :: processed_file
  requests_get :: response
  generate_content :: "call list \<Rightarrow> string \<Rightarrow> string option"
  requests_post :: "call list \<Rightarrow> string \<Rightarrow> nat"
  to_list :: "string set \<Rightarrow> string list"

text \<open>
  \<open>generate_content w h p\<close>: \<^verbatim>\<open>model.generate_content(p).text\<close> after the calls \<open>h\<close>;
  \<open>None\<close> when either the call or reading \<^verbatim>\<open>.text\<close> raises. \<open>requests_post w h s\<close>: the
  status code of the POST that creates a post with text \<open>s\<close>.
\<close>

subsection \<open>Classifier, rewriter, publisher\<close>

definition classify_prompt :: "string \<Rightarrow> string" where
  "classify_prompt text' =
     ''\<newline>You are a classifier. Determine if this tweet describes an options\<newline>trade execution. Respond with exactly:\<newline>\<newline>trade\<newline>or\<newline>not trade\<newline>\<newline>Tweet:\<newline>''
     @ text' @ ''\<newline>''"

definition rewrite_prompt :: "string \<Rightarrow> string" where
  "rewrite_prompt text' =
     ''\<newline>Rewrite this options execution tweet in an unprofessional, cute, format.\<newline>\<newline>Rules:\<newline>- Preserve ticker, strike, expiry, and pricing details.\<newline>- Remove slang and emojis.\<newline>- Make the execution clear.\<newline>\<newline>Original:\<newline>''
     @ text' @ ''\<newline>''"

definition classify_trade :: "world \<Rightarrow> call list \<Rightarrow> string \<Rightarrow> string" where
  "classify_trade w h text' =
     (case generate_content w h (classify_prompt text') of
        None \<Rightarrow> ''not trade''
      | Some result \<Rightarrow>
          (let ans = lower (strip result)
           in if startswith ans ''trade'' then ''trade'' else ''not trade''))"

definition rewrite_tweet :: "world \<Rightarrow> call list \<Rightarrow> string \<Rightarrow> string option" where
  "rewrite_tweet w h text' =
     (case generate_content w h (rewrite_prompt text') of
        None \<Rightarrow> None
      | Some result \<Rightarrow> Some (strip result))"

definition post_tweet :: "world \<Rightarrow> call list \<Rightarrow> string \<Rightarrow> bool" where
  "post_tweet w h text' = (if requests_post w h text' \<noteq> 201 then False else True)"

subsection \<open>Orchestrator\<close>

record state =
  processed :: "string set"
  calls :: "call list"

definition mark :: "string \<Rightarrow> call list \<Rightarrow> state \<Rightarrow> state" where
  "mark tid cs st = \<lparr>processed = insert tid (processed st), calls = calls st @ cs\<rparr>"

text \<open>
  The body of \<^verbatim>\<open>for t in tweets\<close>. Each \<^verbatim>\<open>continue\<close> is a branch that returns the state;
  \<open>mark tid cs\<close> is \<^verbatim>\<open>processed.add(tid)\<close> together with the calls \<open>cs\<close> the iteration has
  made. \<^verbatim>\<open>not rewritten\<close> holds for \<^verbatim>\<open>None\<close> and for the empty string.
\<close>

definition process_tweet :: "world \<Rightarrow> media_includes \<Rightarrow> state \<Rightarrow> tweet \<Rightarrow> state" where
  "process_tweet w inc st t =
     (let tid = tweet_id t; text' = tweet_text t in
      if tid \<in> processed st then st
      else
        let img = has_images t inc; c1 = [HasImages t img] in
        if img then mark tid c1 st
        else
          let label = classify_trade w (calls st @ c1) text';
              c2 = c1 @ [ClassifyTrade text' label] in
          if label \<noteq> ''trade'' then mark tid c2 st
          else
            let rewritten = rewrite_tweet w (calls st @ c2) text';
                c3 = c2 @ [RewriteTweet text' rewritten] in
            (case rewritten of
               None \<Rightarrow> mark tid c3 st
             | Some r \<Rightarrow>
                 if r = [] then mark tid c3 st
                 else
                   let ok = post_tweet w (calls st @ c3) r
                   in mark tid (c3 @ [PostTweet r ok]) st))"

fun for_tweets :: "world \<Rightarrow> media_includes \<Rightarrow> tweet list \<Rightarrow> state \<Rightarrow> state" where
  "for_tweets w inc [] st = st"
| "for_tweets w inc (t # ts) st = for_tweets w inc ts (process_tweet w inc st t)"

record outcome =
  stored_after :: processed_file
  trace :: "call list"

text \<open>\<^verbatim>\<open>data.get("data", [])\<close> and \<^verbatim>\<open>data.get("includes", {})\<close>.\<close>

definition tweets_of :: "timeline \<Rightarrow> tweet list" where
  "tweets_of d = (case timeline_data d of None \<Rightarrow> [] | Some ts \<Rightarrow> ts)"

definition includes_of :: "timeline \<Rightarrow> media_includes" where
  "includes_of d = (case timeline_includes d of None \<Rightarrow> \<lparr>media = None\<rparr> | Some i \<Rightarrow> i)"

text \<open>
  \<^verbatim>\<open>run\<close>. The two early \<^verbatim>\<open>return\<close>s leave the file as it was; \<^verbatim>\<open>if not data\<close> takes
  the second for \<^verbatim>\<open>None\<close> and for an object without keys alike.
\<close>

definition run :: "world \<Rightarrow> outcome" where
  "run w =
     (if \<not> is_rth (now w) then \<lparr>stored_after = stored w, trace = [IsRth False]\<rparr>
      else
        let processed0 = load_processed (stored w);
            data = get_latest_tweets (requests_get w);
            c0 = [IsRth True, LoadProcessed, GetLatestTweets]
        in (case data of
              None \<Rightarrow> \<lparr>stored_after = stored w, trace = c0\<rparr>
            | Some d \<Rightarrow>
                if \<not> timeline_truthy d then \<lparr>stored_after = stored w, trace = c0\<rparr>
                else
                  let tweets = tweets_of d;
                      inc = includes_of d;
                      st = for_tweets w inc tweets \<lparr>processed = processed0, calls = c0\<rparr>
                  in \<lparr>stored_after = save_processed (to_list w) (processed st),
                      trace = calls st @ [SaveProcessed (processed st)]\<rparr>))"

text \<open>
  The state in which the loop of \<^verbatim>\<open>run\<close> ends when the gate is open and the fetch
  gave the body \<open>d\<close>: a name for the term in \<open>run\<close>, used to state facts about it.
\<close>

definition final_state :: "world \<Rightarrow> timeline \<Rightarrow> state" where
  "final_state w d =
     for_tweets w (includes_of d) (tweets_of d)
       \<lparr>processed = load_processed (stored w),
        calls = [IsRth True, LoadProcessed, GetLatestTweets]\<rparr>"

subsection \<open>Reading a trace\<close>

text \<open>The sets a trace saved, and the texts it published, in order.\<close>

fun saved :: "call list \<Rightarrow> string set list" where
  "saved [] = []"
| "saved (SaveProcessed s # cs) = s # saved cs"
| "saved (c # cs) = saved cs"

fun posted :: "call list \<Rightarrow> string list" where
  "posted [] = []"
| "posted (PostTweet s ok # cs) = s # posted cs"
| "posted (c # cs) = posted cs"

text \<open>The calls an iteration makes on the services for a post that is not skipped at once.\<close>

fun service_calls :: "call list \<Rightarrow> call list" where
  "service_calls [] = []"
| "service_calls (HasImages t b # cs) = HasImages t b # service_calls cs"
| "service_calls (ClassifyTrade s l # cs) = ClassifyTrade s l # service_calls cs"
| "service_calls (RewriteTweet s r # cs) = RewriteTweet s r # service_calls cs"
| "service_calls (PostTweet s ok # cs) = PostTweet s ok # service_calls cs"
| "service_calls (c # cs) = service_calls cs"

subsection \<open>Sample inputs\<close>

text \<open>Monday 2024-01-01 (day 738886), 10:00:00 Eastern.\<close>

definition monday_10am :: datetime where
  "monday_10am = \<lparr>ordinal = 738886, hour = 10, minute = 0, second = 0, microsecond = 0\<rparr>"

definition plain_tweet :: "string \<Rightarrow> tweet" where
  "plain_tweet tid =
     \<lparr>tweet_id = tid, tweet_text = ''BTO AAPL 150C 6/20 @ 1.20'', tweet_attachments = None\<rparr>"

definition photo_tweet :: tweet where
  "photo_tweet =
     \<lparr>tweet_id = ''7'', tweet_text = ''chart'',
      tweet_attachments = Some \<lparr>media_keys = Some [''3_1'']\<rparr>\<rparr>"

definition photo_includes :: media_includes where
  "photo_includes = \<lparr>media = Some [\<lparr>media_key = ''3_1'', media_type = Some ''photo''\<rparr>]\<rparr>"

definition timeline_123 :: timeline where
  "timeline_123 =
     \<lparr>timeline_data = Some [plain_tweet ''1'', plain_tweet ''2'', plain_tweet ''3''],
      timeline_includes = None, other_keys = [''meta'']\<rparr>"

text \<open>
  A world in which the generative service answers the classifier with \<open>answer\<close> and
  the rewriter with \<open>rewritten\<close> (told apart by the first line of the prompt), every
  POST gets the status \<open>status\<close>, and \<^verbatim>\<open>list\<close> walks a set in sorted order.
\<close>

definition sample_generate :: "string option \<Rightarrow> string option \<Rightarrow> call list \<Rightarrow> string \<Rightarrow> string option" where
  "sample_generate answer rewritten h p =
     (if startswith p ''\<newline>You are a classifier'' then answer else rewritten)"

definition sample_world ::
    "processed_file \<Rightarrow> response \<Rightarrow> string option \<Rightarrow> string option \<Rightarrow> nat \<Rightarrow> world" where
  "sample_world f r answer rewritten status =
     \<lparr>now = monday_10am, stored = f, requests_get = r,
      generate_content = sample_generate answer rewritten,
      requests_post = (\<lambda>h s. status),
      to_list = sorted_list_of_set\<rparr>"

text \<open>
  The store holds 1 and 2, the fetch gives the posts 1, 2 and 3, the classifier is
  answered \<^verbatim>\<open>Trade\<close> and the rewriter a sentence, both with white space around
  them, and every POST gets the status \<open>status\<close>. \<open>seen_12\<close> is the loop's state with
  that store loaded and no call made.
\<close>

definition trade_world :: "nat \<Rightarrow> world" where
  "trade_world status =
     sample_world (Some [''1'', ''2'']) \<lparr>status_code = 200, json = timeline_123\<rparr>
       (Some '' Trade\<newline>'') (Some '' Bought AAPL 150C exp 6/20 at 1.20\<newline>'') status"

definition seen_12 :: state where
  "seen_12 = \<lparr>processed = {''1'', ''2''}, calls = []\<rparr>"

text \<open>Gate open, status 200, and a body that is the empty object.\<close>

definition empty_body_world :: world where
  "empty_body_world =
     sample_world (Some [''1''])
       \<lparr>status_code = 200, json = \<lparr>timeline_data = None, timeline_includes = None, other_keys = []\<rparr>\<rparr>
       None None 201"

section \<open>Facts about the model\<close>

subsection \<open>The loop and the run\<close>

lemma enumerates_sorted: "enumerates sorted_list_of_set"
  by (simp add: enumerates_def)

lemma any_photo_iff:
  "any_photo keys ms \<longleftrightarrow> (\<exists>m \<in> set ms. media_key m \<in> set keys \<and> media_type m = Some ''photo'')"
  by (induction ms) auto

lemma process_tweet_skip:
  "tweet_id t \<in> processed st \<Longrightarrow> process_tweet w inc st t = st"
  by (simp add: process_tweet_def)

lemma processed_process_tweet:
  "processed (process_tweet w inc st t) = insert (tweet_id t) (processed st)"
  by (auto simp: process_tweet_def mark_def Let_def split: option.splits)

lemma processed_for_tweets:
  "processed (for_tweets w inc ts st) = processed st \<union> tweet_id ` set ts"
  by (induction ts arbitrary: st) (auto simp: processed_process_tweet)

lemma for_tweets_append:
  "for_tweets w inc (ts @ ts') st = for_tweets w inc ts' (for_tweets w inc ts st)"
  by (induction ts arbitrary: st) auto

lemma for_tweets_skip_all:
  "tweet_id ` set ts \<subseteq> processed st \<Longrightarrow> for_tweets w inc ts st = st"
  by (induction ts arbitrary: st) (auto simp: process_tweet_skip)

lemma finite_load: "finite (load_processed f)"
  by (simp add: load_processed_def split: option.splits)

lemma calls_process_tweet:
  "\<exists>cs. calls (process_tweet w inc st t) = calls st @ cs \<and> saved cs = []"
  by (auto simp: process_tweet_def mark_def Let_def split: option.splits)

lemma saved_append: "saved (xs @ ys) = saved xs @ saved ys"
  by (induction xs rule: saved.induct) auto

lemma posted_append: "posted (xs @ ys) = posted xs @ posted ys"
  by (induction xs rule: posted.induct) auto

lemma service_calls_append: "service_calls (xs @ ys) = service_calls xs @ service_calls ys"
  by (induction xs rule: service_calls.induct) auto

lemma calls_for_tweets:
  "\<exists>cs. calls (for_tweets w inc ts st) = calls st @ cs \<and> saved cs = []"
proof (induction ts arbitrary: st)
  case Nil
  then show ?case by simp
next
  case (Cons t ts)
  obtain c1 where c1: "calls (process_tweet w inc st t) = calls st @ c1" "saved c1 = []"
    using calls_process_tweet by blast
  obtain c2 where c2: "calls (for_tweets w inc ts (process_tweet w inc st t))
      = calls (process_tweet w inc st t) @ c2" "saved c2 = []"
    using Cons.IH by blast
  have "calls (for_tweets w inc (t # ts) st) = calls st @ (c1 @ c2)"
    using c1 c2 by simp
  moreover have "saved (c1 @ c2) = []"
    using c1 c2 by (simp add: saved_append)
  ultimately show ?case by blast
qed

lemma run_closed:
  "\<not> is_rth (now w) \<Longrightarrow> run w = \<lparr>stored_after = stored w, trace = [IsRth False]\<rparr>"
  by (simp add: run_def)

lemma run_no_data:
  "is_rth (now w) \<Longrightarrow> get_latest_tweets (requests_get w) = None
    \<or> (\<exists>d. get_latest_tweets (requests_get w) = Some d \<and> \<not> timeline_truthy d) \<Longrightarrow>
   run w = \<lparr>stored_after = stored w, trace = [IsRth True, LoadProcessed, GetLatestTweets]\<rparr>"
  by (auto simp: run_def)

lemma run_data:
  "is_rth (now w) \<Longrightarrow> get_latest_tweets (requests_get w) = Some d \<Longrightarrow> timeline_truthy d \<Longrightarrow>
   run w = \<lparr>stored_after = Some (to_list w (processed (final_state w d))),
            trace = calls (final_state w d) @ [SaveProcessed (processed (final_state w d))]\<rparr>"
  by (simp add: run_def final_state_def save_processed_def Let_def)

lemma processed_final_state:
  "processed (final_state w d) = load_processed (stored w) \<union> tweet_id ` set (tweets_of d)"
  by (simp add: final_state_def processed_for_tweets)

lemma saved_final_state: "saved (calls (final_state w d)) = []"
proof -
  obtain cs where "calls (final_state w d) = [IsRth True, LoadProcessed, GetLatestTweets] @ cs"
      "saved cs = []"
    unfolding final_state_def
    using calls_for_tweets [of w "includes_of d" "tweets_of d"
        "\<lparr>processed = load_processed (stored w), calls = [IsRth True, LoadProcessed, GetLatestTweets]\<rparr>"]
    by auto
  then show ?thesis by simp
qed

lemma for_tweets_drop:
  assumes "tweet_id t \<in> processed st \<union> tweet_id ` set ts"
  shows "for_tweets w inc (ts @ t # ts') st = for_tweets w inc (ts @ ts') st"
proof -
  have "tweet_id t \<in> processed (for_tweets w inc ts st)"
    using assms by (simp add: processed_for_tweets)
  then have "process_tweet w inc (for_tweets w inc ts st) t = for_tweets w inc ts st"
    by (rule process_tweet_skip)
  then show ?thesis by (simp add: for_tweets_append)
qed

lemma finite_final_state: "finite (processed (final_state w d))"
  by (simp add: processed_final_state finite_load)

lemma load_stored_after:
  assumes "enumerates (to_list w)"
  shows "load_processed (stored_after (run w)) =
    (if is_rth (now w) \<and> (\<exists>d. get_latest_tweets (requests_get w) = Some d \<and> timeline_truthy d)
     then load_processed (stored w) \<union> tweet_id ` set (tweets_of (json (requests_get w)))
     else load_processed (stored w))"
proof (cases "is_rth (now w)")
  case False
  then show ?thesis by (simp add: run_closed)
next
  case gate: True
  show ?thesis
  proof (cases "get_latest_tweets (requests_get w)")
    case None
    then show ?thesis using gate by (simp add: run_no_data)
  next
    case (Some d)
    then have d: "d = json (requests_get w)"
      by (auto simp: get_latest_tweets_def split: if_splits)
    show ?thesis
    proof (cases "timeline_truthy d")
      case False
      then show ?thesis using gate Some by (simp add: run_no_data)
    next
      case True
      have "set (to_list w (processed (final_state w d))) = processed (final_state w d)"
        using assms finite_final_state by (simp add: enumerates_def)
      then show ?thesis
        using gate Some True d
        by (simp add: run_data load_processed_def processed_final_state)
    qed
  qed
qed

lemma saved_member: "SaveProcessed s \<in> set cs \<Longrightarrow> s \<in> set (saved cs)"
  by (induction cs rule: saved.induct) auto


lemma run_again:
  assumes en: "enumerates (to_list w2)"
    and same: "requests_get w2 = requests_get w1"
    and st: "load_processed (stored w2)
      = load_processed (stored w1) \<union> tweet_id ` set (tweets_of d)"
    and d: "get_latest_tweets (requests_get w1) = Some d" "timeline_truthy d"
  shows "posted (trace (run w2)) = [] \<and> service_calls (trace (run w2)) = []
    \<and> load_processed (stored_after (run w2)) = load_processed (stored w2)"
proof (cases "is_rth (now w2)")
  case False
  then show ?thesis by (simp add: run_closed)
next
  case True
  have d2: "get_latest_tweets (requests_get w2) = Some d"
    using d same by simp
  have "tweet_id ` set (tweets_of d) \<subseteq> load_processed (stored w2)"
    using st by simp
  then have fs: "final_state w2 d =
      \<lparr>processed = load_processed (stored w2),
       calls = [IsRth True, LoadProcessed, GetLatestTweets]\<rparr>"
    unfolding final_state_def by (intro for_tweets_skip_all) simp
  have "set (to_list w2 (load_processed (stored w2))) = load_processed (stored w2)"
    using en finite_load by (simp add: enumerates_def)
  then show ?thesis
    using True d2 d(2) fs by (simp add: run_data load_processed_def)
qed

lemma startswith_iff: "startswith s p \<longleftrightarrow> (\<exists>rest. s = p @ rest)"
  by (induction s p rule: startswith.induct) auto

subsection \<open>The sample inputs, evaluated\<close>

lemma gate_monday: "is_rth monday_10am"
  by (simp add: is_rth_def monday_10am_def weekday_def datetime_le_def)

lemma normalised_answer: "lower (strip '' Trade\<newline>'') = ''trade''"
  by code_simp

lemma stripped_rewrite:
  "strip '' Bought AAPL 150C exp 6/20 at 1.20\<newline>'' = ''Bought AAPL 150C exp 6/20 at 1.20''"
  by code_simp

lemma lower_trade: "lower (strip ''trade'') = ''trade''"
  by code_simp

lemma stripped_blank: "strip '' \<newline> '' = []"
  by code_simp

lemma generate_classify: "sample_generate a r h (classify_prompt s) = a"
  by (simp add: sample_generate_def classify_prompt_def)

lemma generate_rewrite: "sample_generate a r h (rewrite_prompt s) = r"
  by (simp add: sample_generate_def rewrite_prompt_def)

lemma sample_fields:
  "now (sample_world f r a b c) = monday_10am"
  "stored (sample_world f r a b c) = f"
  "requests_get (sample_world f r a b c) = r"
  "generate_content (sample_world f r a b c) = sample_generate a b"
  "requests_post (sample_world f r a b c) h s = c"
  "to_list (sample_world f r a b c) = sorted_list_of_set"
  by (simp_all add: sample_world_def)

lemma trade_fields:
  "now (trade_world c) = monday_10am"
  "stored (trade_world c) = Some [''1'', ''2'']"
  "requests_get (trade_world c) = \<lparr>status_code = 200, json = timeline_123\<rparr>"
  "generate_content (trade_world c) =
     sample_generate (Some '' Trade\<newline>'') (Some '' Bought AAPL 150C exp 6/20 at 1.20\<newline>'')"
  "requests_post (trade_world c) h s = c"
  "to_list (trade_world c) = sorted_list_of_set"
  by (simp_all add: trade_world_def sample_world_def)

lemma sample_trace:
  "trace (run (trade_world c))
   = [IsRth True, LoadProcessed, GetLatestTweets,
      HasImages (plain_tweet ''3'') False,
      ClassifyTrade ''BTO AAPL 150C 6/20 @ 1.20'' ''trade'',
      RewriteTweet ''BTO AAPL 150C 6/20 @ 1.20'' (Some ''Bought AAPL 150C exp 6/20 at 1.20''),
      PostTweet ''Bought AAPL 150C exp 6/20 at 1.20'' (c = 201),
      SaveProcessed {''1'', ''2'', ''3''}]"
  by (simp add: run_def trade_fields gate_monday get_latest_tweets_def timeline_truthy_def
      timeline_123_def tweets_of_def includes_of_def load_processed_def process_tweet_def
      plain_tweet_def has_images_def classify_trade_def rewrite_tweet_def post_tweet_def
      generate_classify generate_rewrite normalised_answer stripped_rewrite mark_def Let_def
      insert_commute)

section \<open>The claims\<close>

text \<open>
  C1 (at-most-once). A post whose id is in the processed set is skipped: its iteration
  returns the state as it was, so it makes no media check and no classify, rewrite or
  publish call, and the set is unchanged. This holds whether the id was in the set
  when the loop started or was added by an earlier post of the same batch: a batch
  with the post and the batch without it end in the same state. No iteration and no
  loop removes an id, and the set a run leaves in the store contains the set it found
  there.
\<close>

theorem at_most_once:
  "(tweet_id t \<in> processed st \<longrightarrow> process_tweet w inc st t = st)
   \<and> (tweet_id t \<in> processed st \<union> tweet_id ` set ts \<longrightarrow>
        for_tweets w inc (ts @ t # ts') st = for_tweets w inc (ts @ ts') st)
   \<and> processed st \<subseteq> processed (process_tweet w inc st t)
   \<and> processed st \<subseteq> processed (for_tweets w inc ts st)
   \<and> (enumerates (to_list w) \<longrightarrow>
        load_processed (stored w) \<subseteq> load_processed (stored_after (run w)))"
proof (intro conjI impI)
  assume "enumerates (to_list w)"
  then show "load_processed (stored w) \<subseteq> load_processed (stored_after (run w))"
    by (simp add: load_stored_after)
qed (simp_all add: process_tweet_skip for_tweets_drop processed_process_tweet
      processed_for_tweets subset_insertI)

theorem at_most_once_witness:
  "tweet_id (plain_tweet ''1'') \<in> processed seen_12
   \<and> process_tweet (trade_world 201) \<lparr>media = None\<rparr>
        seen_12 (plain_tweet ''1'') = seen_12
   \<and> tweet_id (plain_tweet ''3'') \<in> processed seen_12 \<union> tweet_id ` set [plain_tweet ''3'']
   \<and> for_tweets (trade_world 201) \<lparr>media = None\<rparr>
        ([plain_tweet ''3''] @ plain_tweet ''3'' # []) seen_12
      = for_tweets (trade_world 201) \<lparr>media = None\<rparr>
        ([plain_tweet ''3''] @ []) seen_12
   \<and> enumerates (to_list (trade_world 201))
   \<and> load_processed (stored (trade_world 201))
      \<subseteq> load_processed (stored_after (run (trade_world 201)))"
  using at_most_once [of "plain_tweet ''1''" seen_12
      "trade_world 201" "\<lparr>media = None\<rparr>" "[]" "[]"]
    at_most_once [of "plain_tweet ''3''" seen_12
      "trade_world 201" "\<lparr>media = None\<rparr>" "[plain_tweet ''3'']" "[]"]
    enumerates_sorted
  by (simp add: plain_tweet_def trade_fields seen_12_def)

text \<open>
  C2 (unconditional marking). Every iteration ends with the post's id in the set,
  whatever branch it took and whatever the publish call returned. So in every run
  that reaches the save, the set saved is the set loaded together with the ids of
  all fetched posts; the file then holds an enumeration of that set, and loading it
  gives the set back.
\<close>

theorem unconditional_marking:
  "processed (process_tweet w inc st t) = insert (tweet_id t) (processed st)
   \<and> (SaveProcessed s \<in> set (trace (run w)) \<longrightarrow>
        (\<exists>d. get_latest_tweets (requests_get w) = Some d
           \<and> s = load_processed (stored w) \<union> tweet_id ` set (tweets_of d)
           \<and> stored_after (run w) = Some (to_list w s)
           \<and> (enumerates (to_list w) \<longrightarrow> load_processed (stored_after (run w)) = s)))"
proof (intro conjI impI)
  show "processed (process_tweet w inc st t) = insert (tweet_id t) (processed st)"
    by (rule processed_process_tweet)
next
  assume s: "SaveProcessed s \<in> set (trace (run w))"
  have gate: "is_rth (now w)"
    using s by (cases "is_rth (now w)") (simp_all add: run_closed)
  obtain d where d: "get_latest_tweets (requests_get w) = Some d" "timeline_truthy d"
    using s gate run_no_data [of w] by (cases "get_latest_tweets (requests_get w)") fastforce+
  let ?S = "processed (final_state w d)"
  have "SaveProcessed s \<in> set (calls (final_state w d)) \<or> s = ?S"
    using s gate d by (auto simp: run_data)
  moreover have "SaveProcessed s \<notin> set (calls (final_state w d))"
    using saved_member [of s "calls (final_state w d)"] by (auto simp: saved_final_state)
  ultimately have eq: "s = ?S" by blast
  have fin: "finite s" using eq finite_final_state by simp
  have "stored_after (run w) = Some (to_list w s)"
    using gate d eq by (simp add: run_data)
  moreover have "enumerates (to_list w) \<longrightarrow> load_processed (Some (to_list w s)) = s"
    using fin by (simp add: enumerates_def load_processed_def)
  ultimately show "\<exists>d. get_latest_tweets (requests_get w) = Some d
           \<and> s = load_processed (stored w) \<union> tweet_id ` set (tweets_of d)
           \<and> stored_after (run w) = Some (to_list w s)
           \<and> (enumerates (to_list w) \<longrightarrow> load_processed (stored_after (run w)) = s)"
    using d eq processed_final_state by auto
qed

theorem unconditional_marking_witness:
  "SaveProcessed {''1'', ''2'', ''3''} \<in> set (trace (run (trade_world 500)))
   \<and> PostTweet ''Bought AAPL 150C exp 6/20 at 1.20'' False
        \<in> set (trace (run (trade_world 500)))
   \<and> enumerates (to_list (trade_world 500))
   \<and> load_processed (stored_after (run (trade_world 500))) = {''1'', ''2'', ''3''}"
  using unconditional_marking [of "trade_world 500" _ _ _
      "{''1'', ''2'', ''3''}"]
    sample_trace [of 500] enumerates_sorted
  by (auto simp: trade_fields)

text \<open>
  C3 (abort atomicity), as amended. When the gate is closed, when the fetch fails
  (a status other than 200), or when the fetch succeeds with a body that is an object
  without keys, the run calls no save and the file is what it was. On every other run
  save is called exactly once, as the last call of the run, with the set loaded
  together with the ids of all fetched posts.

  Without the third case the statement fails: \<^verbatim>\<open>if not data\<close> is true for \<^verbatim>\<open>None\<close> and
  for \<^verbatim>\<open>{}\<close> alike, and the counterexample below is a run with the gate open and a
  fetch of status 200 that saves nothing.
\<close>

theorem abort_atomicity:
  "(\<not> is_rth (now w) \<or> get_latest_tweets (requests_get w) = None
      \<or> (\<exists>d. get_latest_tweets (requests_get w) = Some d \<and> \<not> timeline_truthy d) \<longrightarrow>
        saved (trace (run w)) = [] \<and> stored_after (run w) = stored w)
   \<and> (is_rth (now w) \<and> get_latest_tweets (requests_get w) = Some d \<and> timeline_truthy d \<longrightarrow>
        (\<exists>cs s. trace (run w) = cs @ [SaveProcessed s] \<and> saved cs = []
           \<and> saved (trace (run w)) = [s]
           \<and> s = load_processed (stored w) \<union> tweet_id ` set (tweets_of d)
           \<and> stored_after (run w) = save_processed (to_list w) s))"
proof (intro conjI impI)
  assume a: "\<not> is_rth (now w) \<or> get_latest_tweets (requests_get w) = None
      \<or> (\<exists>d. get_latest_tweets (requests_get w) = Some d \<and> \<not> timeline_truthy d)"
  show "saved (trace (run w)) = []"
    using a run_closed [of w] run_no_data [of w] by (cases "is_rth (now w)") auto
  show "stored_after (run w) = stored w"
    using a run_closed [of w] run_no_data [of w] by (cases "is_rth (now w)") auto
next
  assume a: "is_rth (now w) \<and> get_latest_tweets (requests_get w) = Some d \<and> timeline_truthy d"
  let ?S = "processed (final_state w d)"
  have "trace (run w) = calls (final_state w d) @ [SaveProcessed ?S]"
    and "stored_after (run w) = save_processed (to_list w) ?S"
    using a by (simp_all add: run_data save_processed_def)
  then show "\<exists>cs s. trace (run w) = cs @ [SaveProcessed s] \<and> saved cs = []
           \<and> saved (trace (run w)) = [s]
           \<and> s = load_processed (stored w) \<union> tweet_id ` set (tweets_of d)
           \<and> stored_after (run w) = save_processed (to_list w) s"
    using saved_final_state [of w d] processed_final_state [of w d]
    by (simp add: saved_append)
qed

theorem abort_atomicity_witness:
  "is_rth (now (trade_world 201))
   \<and> get_latest_tweets (requests_get (trade_world 201)) = Some timeline_123
   \<and> timeline_truthy timeline_123
   \<and> saved (trace (run (trade_world 201))) = [{''1'', ''2'', ''3''}]
   \<and> get_latest_tweets (requests_get empty_body_world)
      = Some \<lparr>timeline_data = None, timeline_includes = None, other_keys = []\<rparr>
   \<and> \<not> timeline_truthy \<lparr>timeline_data = None, timeline_includes = None, other_keys = []\<rparr>
   \<and> saved (trace (run empty_body_world)) = []
   \<and> stored_after (run empty_body_world) = stored empty_body_world"
  using abort_atomicity [of "trade_world 201" timeline_123]
    abort_atomicity [of empty_body_world]
    gate_monday
  by (auto simp: sample_fields trade_fields empty_body_world_def get_latest_tweets_def
      timeline_truthy_def timeline_123_def tweets_of_def load_processed_def plain_tweet_def)

theorem abort_atomicity_counterexample:
  "is_rth (now empty_body_world)
   \<and> status_code (requests_get empty_body_world) = 200
   \<and> get_latest_tweets (requests_get empty_body_world) \<noteq> None
   \<and> length (saved (trace (run empty_body_world))) \<noteq> 1
   \<and> trace (run empty_body_world) = [IsRth True, LoadProcessed, GetLatestTweets]"
  by (simp add: empty_body_world_def sample_fields gate_monday run_def get_latest_tweets_def
      timeline_truthy_def)

text \<open>
  C4 (gate boundary). On Saturday and Sunday (\<^verbatim>\<open>weekday()\<close> 5 and 6) the gate is closed
  at every time of day. On a weekday it is open exactly when the time of day lies
  between 09:30:00 and 16:00:00, both ends included. On a Monday 09:29:59 is closed,
  09:30:00 is open, 16:00:00 is open and 16:00:01 is closed. The comparison is exact
  to the microsecond: the second 09:30:00 is open throughout, and of the second
  16:00:00 only its first microsecond is.
\<close>

theorem gate_boundary:
  "(weekday d \<ge> 5 \<longrightarrow> \<not> is_rth d)
   \<and> (valid_time d \<and> weekday d < 5 \<longrightarrow>
        is_rth d = (hms 9 30 0 \<le> time_of_day d \<and> time_of_day d \<le> hms 16 0 0))
   \<and> (weekday d = 0 \<longrightarrow>
        \<not> is_rth (d\<lparr>hour := 9, minute := 29, second := 59\<rparr>)
        \<and> is_rth (d\<lparr>hour := 9, minute := 30, second := 0\<rparr>)
        \<and> is_rth (d\<lparr>hour := 16, minute := 0, second := 0, microsecond := 0\<rparr>)
        \<and> (0 < microsecond d \<longrightarrow> \<not> is_rth (d\<lparr>hour := 16, minute := 0, second := 0\<rparr>))
        \<and> \<not> is_rth (d\<lparr>hour := 16, minute := 0, second := 1\<rparr>))"
proof (intro conjI impI)
  assume "weekday d \<ge> 5"
  then show "\<not> is_rth d" by (simp add: is_rth_def)
next
  assume a: "valid_time d \<and> weekday d < 5"
  then have v: "minute d < 60" "second d < 60" "microsecond d < 1000000"
    and wd: "\<not> 5 \<le> weekday d"
    by (simp_all add: valid_time_def)
  have lo: "datetime_le (d\<lparr>hour := 9, minute := 30, second := 0, microsecond := 0\<rparr>) d
      \<longleftrightarrow> hms 9 30 0 \<le> time_of_day d"
    using v unfolding datetime_le_def hms_def time_of_day_def by simp linarith
  have hi: "datetime_le d (d\<lparr>hour := 16, minute := 0, second := 0, microsecond := 0\<rparr>)
      \<longleftrightarrow> time_of_day d \<le> hms 16 0 0"
    using v unfolding datetime_le_def hms_def time_of_day_def by simp linarith
  show "is_rth d = (hms 9 30 0 \<le> time_of_day d \<and> time_of_day d \<le> hms 16 0 0)"
    using wd lo hi by (simp add: is_rth_def Let_def)
qed (simp_all add: is_rth_def weekday_def datetime_le_def)

theorem gate_boundary_witness:
  "valid_time monday_10am \<and> weekday monday_10am < 5 \<and> weekday monday_10am = 0
   \<and> hms 9 30 0 \<le> time_of_day monday_10am \<and> time_of_day monday_10am \<le> hms 16 0 0
   \<and> is_rth monday_10am
   \<and> \<not> is_rth (monday_10am\<lparr>hour := 9, minute := 29, second := 59\<rparr>)
   \<and> is_rth (monday_10am\<lparr>hour := 9, minute := 30, second := 0\<rparr>)
   \<and> is_rth (monday_10am\<lparr>hour := 16, minute := 0, second := 0, microsecond := 0\<rparr>)
   \<and> \<not> is_rth (monday_10am\<lparr>hour := 16, minute := 0, second := 1\<rparr>)
   \<and> 0 < microsecond (monday_10am\<lparr>microsecond := 1\<rparr>)
   \<and> \<not> is_rth (monday_10am\<lparr>microsecond := 1, hour := 16, minute := 0, second := 0\<rparr>)
   \<and> weekday (monday_10am\<lparr>ordinal := 738891\<rparr>) \<ge> 5
   \<and> \<not> is_rth (monday_10am\<lparr>ordinal := 738891\<rparr>)"
  using gate_boundary [of monday_10am]
    gate_boundary [of "monday_10am\<lparr>microsecond := 1\<rparr>"]
    gate_boundary [of "monday_10am\<lparr>ordinal := 738891\<rparr>"]
  by (simp add: monday_10am_def valid_time_def weekday_def hms_def time_of_day_def)

text \<open>
  C5 (fail-closed classification). \<open>classify_trade\<close> answers \<^verbatim>\<open>trade\<close> exactly when the
  service call succeeds and its response, stripped and lower-cased, starts with
  \<^verbatim>\<open>trade\<close>. Every other outcome is \<^verbatim>\<open>not trade\<close>; an exception of the service is one.
\<close>

theorem fail_closed_classification:
  "(classify_trade w h text' = ''trade'' \<longleftrightarrow>
      (\<exists>result rest. generate_content w h (classify_prompt text') = Some result
         \<and> lower (strip result) = ''trade'' @ rest))
   \<and> (classify_trade w h text' \<noteq> ''trade'' \<longrightarrow> classify_trade w h text' = ''not trade'')
   \<and> (generate_content w h (classify_prompt text') = None \<longrightarrow>
        classify_trade w h text' = ''not trade'')"
  by (auto simp: classify_trade_def Let_def startswith_iff split: option.splits)

theorem fail_closed_classification_witness:
  "generate_content (sample_world None \<lparr>status_code = 200, json = timeline_123\<rparr>
       (Some '' Trade\<newline>'') None 201) [] (classify_prompt ''x'') = Some '' Trade\<newline>''
   \<and> lower (strip '' Trade\<newline>'') = ''trade'' @ []
   \<and> classify_trade (sample_world None \<lparr>status_code = 200, json = timeline_123\<rparr>
       (Some '' Trade\<newline>'') None 201) [] ''x'' = ''trade''
   \<and> generate_content (sample_world None \<lparr>status_code = 200, json = timeline_123\<rparr>
       None None 201) [] (classify_prompt ''x'') = None
   \<and> classify_trade (sample_world None \<lparr>status_code = 200, json = timeline_123\<rparr>
       None None 201) [] ''x'' = ''not trade''"
proof -
  let ?yes = "sample_world None \<lparr>status_code = 200, json = timeline_123\<rparr>
       (Some '' Trade\<newline>'') None 201"
  let ?no = "sample_world None \<lparr>status_code = 200, json = timeline_123\<rparr> None None 201"
  have g: "generate_content ?yes [] (classify_prompt ''x'') = Some '' Trade\<newline>''"
    by (simp only: sample_fields generate_classify)
  have n: "lower (strip '' Trade\<newline>'') = ''trade'' @ []"
    using normalised_answer by (simp only: append_Nil2)
  have yes: "classify_trade ?yes [] ''x'' = ''trade''"
    using fail_closed_classification [of ?yes "[]" "''x''"] g n by blast
  have e: "generate_content ?no [] (classify_prompt ''x'') = None"
    by (simp only: sample_fields generate_classify)
  have no: "classify_trade ?no [] ''x'' = ''not trade''"
    using fail_closed_classification [of ?no "[]" "''x''"] e by blast
  show ?thesis
    using g n yes e no by (intro conjI)
qed



text \<open>
  C7 (media filter truth condition). \<open>has_images\<close> is true exactly when the post has
  an \<^verbatim>\<open>attachments\<close> object with a \<^verbatim>\<open>media_keys\<close> list, the includes payload has a
  \<^verbatim>\<open>media\<close> table, and some item of the table has its \<^verbatim>\<open>media_key\<close> in the list and
  the type \<^verbatim>\<open>photo\<close>. Without attachments, without media keys or without a media table
  it is false.
\<close>

theorem media_filter_truth:
  "(has_images t inc \<longleftrightarrow>
      (\<exists>a keys ms. tweet_attachments t = Some a \<and> media_keys a = Some keys \<and> media inc = Some ms
         \<and> (\<exists>m \<in> set ms. media_key m \<in> set keys \<and> media_type m = Some ''photo'')))
   \<and> (tweet_attachments t = None \<longrightarrow> \<not> has_images t inc)
   \<and> (tweet_attachments t = Some a \<and> media_keys a = None \<longrightarrow> \<not> has_images t inc)
   \<and> (media inc = None \<longrightarrow> \<not> has_images t inc)"
  by (auto simp: has_images_def any_photo_iff split: option.splits)

theorem media_filter_truth_witness:
  "tweet_attachments photo_tweet = Some \<lparr>media_keys = Some [''3_1'']\<rparr>
   \<and> media photo_includes = Some [\<lparr>media_key = ''3_1'', media_type = Some ''photo''\<rparr>]
   \<and> has_images photo_tweet photo_includes
   \<and> tweet_attachments (plain_tweet ''3'') = None
   \<and> \<not> has_images (plain_tweet ''3'') photo_includes
   \<and> media \<lparr>media = None\<rparr> = None
   \<and> \<not> has_images photo_tweet \<lparr>media = None\<rparr>"
  using media_filter_truth [of photo_tweet photo_includes "\<lparr>media_keys = Some [''3_1'']\<rparr>"]
    media_filter_truth [of "plain_tweet ''3''" photo_includes]
    media_filter_truth [of photo_tweet "\<lparr>media = None\<rparr>"]
  by (simp add: photo_tweet_def photo_includes_def plain_tweet_def)

text \<open>
  C8 (idempotence). Let a first run pass the gate and fetch a batch, and let a second
  run start from the store the first run left and fetch the same batch. Then the
  second run publishes nothing (it makes no media check and no service call at all),
  and the set in the store after it is the set in the store after the first run.
\<close>

theorem idempotence:
  "enumerates (to_list w1) \<and> enumerates (to_list w2) \<and> is_rth (now w1)
     \<and> requests_get w2 = requests_get w1 \<and> stored w2 = stored_after (run w1) \<longrightarrow>
   posted (trace (run w2)) = [] \<and> service_calls (trace (run w2)) = []
   \<and> load_processed (stored_after (run w2)) = load_processed (stored_after (run w1))"
proof (intro impI)
  assume a: "enumerates (to_list w1) \<and> enumerates (to_list w2) \<and> is_rth (now w1)
     \<and> requests_get w2 = requests_get w1 \<and> stored w2 = stored_after (run w1)"
  then have en1: "enumerates (to_list w1)" and en2: "enumerates (to_list w2)"
    and gate: "is_rth (now w1)" and same: "requests_get w2 = requests_get w1"
    and st: "stored w2 = stored_after (run w1)"
    by simp_all
  show "posted (trace (run w2)) = [] \<and> service_calls (trace (run w2)) = []
   \<and> load_processed (stored_after (run w2)) = load_processed (stored_after (run w1))"
  proof (cases "\<exists>d. get_latest_tweets (requests_get w1) = Some d \<and> timeline_truthy d")
    case True
    then obtain d where d: "get_latest_tweets (requests_get w1) = Some d" "timeline_truthy d"
      by blast
    then have "d = json (requests_get w1)"
      by (auto simp: get_latest_tweets_def split: if_splits)
    then have "load_processed (stored w2)
        = load_processed (stored w1) \<union> tweet_id ` set (tweets_of d)"
      using st gate d load_stored_after [OF en1] by auto
    then show ?thesis
      using run_again [OF en2 same _ d] st by simp
  next
    case False
    then have no: "get_latest_tweets (requests_get w1) = None
        \<or> (\<exists>d. get_latest_tweets (requests_get w1) = Some d \<and> \<not> timeline_truthy d)"
      by (cases "get_latest_tweets (requests_get w1)") auto
    then have no2: "get_latest_tweets (requests_get w2) = None
        \<or> (\<exists>d. get_latest_tweets (requests_get w2) = Some d \<and> \<not> timeline_truthy d)"
      using same by simp
    have "stored w2 = stored w1"
      using st gate no by (simp add: run_no_data)
    then show ?thesis
      using st run_closed [of w2] run_no_data [OF _ no2]
      by (cases "is_rth (now w2)") auto
  qed
qed

theorem idempotence_witness:
  "enumerates (to_list (trade_world 201))
   \<and> is_rth (now (trade_world 201))
   \<and> posted (trace (run (trade_world 201))) = [''Bought AAPL 150C exp 6/20 at 1.20'']
   \<and> posted (trace (run (sample_world (stored_after (run (trade_world 201)))
        \<lparr>status_code = 200, json = timeline_123\<rparr> (Some ''trade'') (Some ''again'') 201))) = []
   \<and> load_processed (stored_after (run (sample_world (stored_after (run (trade_world 201)))
        \<lparr>status_code = 200, json = timeline_123\<rparr> (Some ''trade'') (Some ''again'') 201)))
      = load_processed (stored_after (run (trade_world 201)))"
  using idempotence [of "trade_world 201"
      "sample_world (stored_after (run (trade_world 201)))
        \<lparr>status_code = 200, json = timeline_123\<rparr> (Some ''trade'') (Some ''again'') 201"]
    enumerates_sorted gate_monday sample_trace [of 201]
  by (simp add: sample_fields trade_fields)

text \<open>
  C9 (dedupe store round trip). Loading when no file exists gives the empty set.
  Saving a set and loading it again gives the same set, in whatever order \<^verbatim>\<open>list\<close>
  enumerates it. Loading a stored array gives the set of its entries: a repeated id
  and the order of the array make no difference.
\<close>

theorem store_round_trip:
  "load_processed None = {}
   \<and> (enumerates en \<and> finite s \<longrightarrow> load_processed (save_processed en s) = s)
   \<and> load_processed (Some ids) = set ids
   \<and> load_processed (Some (x # x # ids)) = load_processed (Some (x # ids))
   \<and> load_processed (Some (rev ids)) = load_processed (Some ids)"
  by (simp add: load_processed_def save_processed_def enumerates_def)

theorem store_round_trip_witness:
  "enumerates sorted_list_of_set \<and> finite {''1'', ''2''}
   \<and> load_processed (save_processed sorted_list_of_set {''1'', ''2''}) = {''1'', ''2''}"
  using store_round_trip [of sorted_list_of_set "{''1'', ''2''}"] enumerates_sorted by simp

text \<open>
  C10 (empty rewrite treated as failure). Take a post that is not in the set, has no
  photo and is classified as a trade. If the rewrite call succeeds with a response
  that is empty once stripped, \<open>rewrite_tweet\<close> returns the empty string, and the
  iteration ends as it does when the call raises and \<open>rewrite_tweet\<close> returns \<^verbatim>\<open>None\<close>:
  after the media check, the classify call and the rewrite call, with no publish call
  and with the id in the set.
\<close>

theorem empty_rewrite_is_failure:
  "tweet_id t \<notin> processed st \<and> \<not> has_images t inc
     \<and> classify_trade w (calls st @ [HasImages t False]) (tweet_text t) = ''trade''
     \<and> generate_content w (calls st @ [HasImages t False, ClassifyTrade (tweet_text t) ''trade''])
          (rewrite_prompt (tweet_text t)) = g \<longrightarrow>
   ((\<exists>r. g = Some r \<and> strip r = []) \<longrightarrow>
      rewrite_tweet w (calls st @ [HasImages t False, ClassifyTrade (tweet_text t) ''trade''])
        (tweet_text t) = Some []
      \<and> process_tweet w inc st t =
          \<lparr>processed = insert (tweet_id t) (processed st),
           calls = calls st @ [HasImages t False, ClassifyTrade (tweet_text t) ''trade'',
                               RewriteTweet (tweet_text t) (Some [])]\<rparr>
      \<and> posted (calls (process_tweet w inc st t)) = posted (calls st))
   \<and> (g = None \<longrightarrow>
      rewrite_tweet w (calls st @ [HasImages t False, ClassifyTrade (tweet_text t) ''trade''])
        (tweet_text t) = None
      \<and> process_tweet w inc st t =
          \<lparr>processed = insert (tweet_id t) (processed st),
           calls = calls st @ [HasImages t False, ClassifyTrade (tweet_text t) ''trade'',
                               RewriteTweet (tweet_text t) None]\<rparr>
      \<and> posted (calls (process_tweet w inc st t)) = posted (calls st))"
  by (auto simp: process_tweet_def rewrite_tweet_def mark_def Let_def posted_append)

theorem empty_rewrite_is_failure_witness:
  "tweet_id (plain_tweet ''3'') \<notin> processed seen_12
   \<and> \<not> has_images (plain_tweet ''3'') \<lparr>media = None\<rparr>
   \<and> strip '' \<newline> '' = []
   \<and> process_tweet (sample_world None \<lparr>status_code = 200, json = timeline_123\<rparr> (Some ''trade'') (Some '' \<newline> '') 201)
        \<lparr>media = None\<rparr> seen_12 (plain_tweet ''3'')
      = \<lparr>processed = {''3'', ''1'', ''2''},
         calls = [HasImages (plain_tweet ''3'') False,
                  ClassifyTrade ''BTO AAPL 150C 6/20 @ 1.20'' ''trade'',
                  RewriteTweet ''BTO AAPL 150C 6/20 @ 1.20'' (Some [])]\<rparr>
   \<and> process_tweet (sample_world None \<lparr>status_code = 200, json = timeline_123\<rparr> (Some ''trade'') None 201)
        \<lparr>media = None\<rparr> seen_12 (plain_tweet ''3'')
      = \<lparr>processed = {''3'', ''1'', ''2''},
         calls = [HasImages (plain_tweet ''3'') False,
                  ClassifyTrade ''BTO AAPL 150C 6/20 @ 1.20'' ''trade'',
                  RewriteTweet ''BTO AAPL 150C 6/20 @ 1.20'' None]\<rparr>"
  using empty_rewrite_is_failure [of "plain_tweet ''3''" seen_12 "\<lparr>media = None\<rparr>"
      "sample_world None \<lparr>status_code = 200, json = timeline_123\<rparr> (Some ''trade'') (Some '' \<newline> '') 201" "Some '' \<newline> ''"]
    empty_rewrite_is_failure [of "plain_tweet ''3''" seen_12 "\<lparr>media = None\<rparr>"
      "sample_world None \<lparr>status_code = 200, json = timeline_123\<rparr> (Some ''trade'') None 201" None]
    stripped_blank
  by (simp add: plain_tweet_def has_images_def classify_trade_def sample_fields
      generate_classify generate_rewrite seen_12_def startswith_iff lower_trade)

end
